theory Spec2Isabelle
  imports Main "HOL-Library.Word" "HOL-Library.Multiset"
begin

section \<open>Values shared by the server routes and the client\<close>

text \<open>
  A JavaScript value as it travels in a request or response body. \<open>JUndefined\<close> is what
  reading an absent property yields; it never occurs inside a body that was serialised.
\<close>

datatype jsval =
    JUndefined
  | JNull
  | JBool bool
  | JNum int
  | JStr string
  | JArr "jsval list"
  | JObj "(string \<times> jsval) list"

text \<open>Property access \<open>v.k\<close> on a value that is neither \<open>null\<close> nor \<open>undefined\<close>.\<close>

fun get_prop :: "jsval \<Rightarrow> string \<Rightarrow> jsval" where
  "get_prop (JObj kvs) k = (case map_of kvs k of None \<Rightarrow> JUndefined | Some v \<Rightarrow> v)"
| "get_prop _ k = JUndefined"

text \<open>The own keys of an object, in order.\<close>

fun keys :: "jsval \<Rightarrow> string list" where
  "keys (JObj kvs) = map fst kvs"
| "keys _ = []"

text \<open>JavaScript truthiness and the operator \<open>a || b\<close>.\<close>

fun truthy :: "jsval \<Rightarrow> bool" where
  "truthy JUndefined = False"
| "truthy JNull = False"
| "truthy (JBool b) = b"
| "truthy (JNum n) = (n \<noteq> 0)"
| "truthy (JStr s) = (s \<noteq> [])"
| "truthy (JArr _) = True"
| "truthy (JObj _) = True"

definition js_or :: "jsval \<Rightarrow> jsval \<Rightarrow> jsval" where
  "js_or a b = (if truthy a then a else b)"

type_synonym bytes = "8 word list"

text \<open>\<open>Date.now()\<close> inside a template string: the decimal digits of the number.\<close>

function string_of_nat :: "nat \<Rightarrow> string" where
  "string_of_nat n =
     (if n < 10 then [''0123456789'' ! n]
      else string_of_nat (n div 10) @ [''0123456789'' ! (n mod 10)])"
  by pat_completeness auto
termination
  by (relation "measure (\<lambda>n. n)") auto

declare string_of_nat.simps [simp del]

text \<open>\<open>buffer.toString('base64')\<close>: three bytes become four characters, padded with \<open>=\<close>.\<close>

definition b64 :: "nat \<Rightarrow> char" where
  "b64 n = ''ABCDEFGHIJKLMNOPQRSTUVWXYZabcdefghijklmnopqrstuvwxyz0123456789+/'' ! n"

fun toString_base64 :: "bytes \<Rightarrow> string" where
  "toString_base64 [] = []"
| "toString_base64 [a] =
     (let n = unat a * 65536
      in [b64 (n div 262144), b64 (n div 4096 mod 64), CHR ''='', CHR ''=''])"
| "toString_base64 [a, b] =
     (let n = unat a * 65536 + unat b * 256
      in [b64 (n div 262144), b64 (n div 4096 mod 64), b64 (n div 64 mod 64), CHR ''=''])"
| "toString_base64 (a # b # c # rest) =
     (let n = unat a * 65536 + unat b * 256 + unat c
      in [b64 (n div 262144), b64 (n div 4096 mod 64), b64 (n div 64 mod 64), b64 (n mod 64)]
         @ toString_base64 rest)"

section \<open>The analysis schema\<close>

text \<open>
  The object type inferred from \<open>analysisSchema\<close>: four strings, two booleans and the
  confidence, which at run time is a string.
\<close>

record analysis =
  species :: string
  commonName :: string
  isSafeToEat :: bool
  isSafeToTouch :: bool
  confidence :: string
  warnings :: string
  description :: string

text \<open>The two leaf validators of the schema: \<open>z.string()\<close> and \<open>z.boolean()\<close>.\<close>

fun z_string :: "jsval \<Rightarrow> string option" where
  "z_string (JStr s) = Some s"
| "z_string _ = None"

fun z_boolean :: "jsval \<Rightarrow> bool option" where
  "z_boolean (JBool b) = Some b"
| "z_boolean _ = None"

text \<open>\<open>z.enum(['high', 'medium', 'low'])\<close>.\<close>

fun z_enum_confidence :: "jsval \<Rightarrow> string option" where
  "z_enum_confidence (JStr s) = (if s \<in> set [''high'', ''medium'', ''low''] then Some s else None)"
| "z_enum_confidence _ = None"

text \<open>
  \<open>analysisSchema\<close>, a \<open>z.object\<close> of seven fields: the input must be an object, every
  field must be present and pass its validator, and keys the schema does not name are
  stripped from the result. \<open>None\<close> is a validation failure.
\<close>

definition analysisSchema :: "jsval \<Rightarrow> analysis option" where
  "analysisSchema v =
     (case v of
        JObj kvs \<Rightarrow>
          Option.bind (z_string (get_prop v ''species'')) (\<lambda>sp.
          Option.bind (z_string (get_prop v ''commonName'')) (\<lambda>cn.
          Option.bind (z_boolean (get_prop v ''isSafeToEat'')) (\<lambda>eat.
          Option.bind (z_boolean (get_prop v ''isSafeToTouch'')) (\<lambda>touch.
          Option.bind (z_enum_confidence (get_prop v ''confidence'')) (\<lambda>conf.
          Option.bind (z_string (get_prop v ''warnings'')) (\<lambda>wa.
          Option.bind (z_string (get_prop v ''description'')) (\<lambda>de.
            Some \<lparr>species = sp, commonName = cn, isSafeToEat = eat, isSafeToTouch = touch,
                  confidence = conf, warnings = wa, description = de\<rparr>)))))))
      | _ \<Rightarrow> None)"

text \<open>The analysis object as it is serialised into a response body.\<close>

definition analysis_json :: "analysis \<Rightarrow> jsval" where
  "analysis_json a =
     JObj [(''species'', JStr (species a)),
           (''commonName'', JStr (commonName a)),
           (''isSafeToEat'', JBool (isSafeToEat a)),
           (''isSafeToTouch'', JBool (isSafeToTouch a)),
           (''confidence'', JStr (confidence a)),
           (''warnings'', JStr (warnings a)),
           (''description'', JStr (description a))]"

section \<open>Identifiers of the uuid type\<close>

text \<open>
  Modelled from the spec: the database is not under the sources. The schema declares the
  column \<open>id\<close> of \<open>scans\<close> as \<open>uuid\<close>, so the database holds an id as sixteen bytes, reads
  a text as a uuid with its input function and writes one back in the canonical spelling.
  The input function is that of PostgreSQL: thirty-two hexadecimal digits in either case,
  optionally inside braces, with an optional hyphen after any group of four digits; every
  other text is a syntax error, which fails the query.
\<close>

type_synonym uuid = bytes

definition hex_val :: "char \<Rightarrow> nat option" where
  "hex_val c =
     map_of (zip ''0123456789abcdefABCDEF''
               [0, 1, 2, 3, 4, 5, 6, 7, 8, 9, 10, 11, 12, 13, 14, 15, 10, 11, 12, 13, 14, 15]) c"

text \<open>
  Reading the remaining bytes of a uuid. With \<open>Suc r\<close> bytes left the byte read has index
  \<open>15 - r\<close>, and a hyphen is skipped after a byte of odd index that is not the last.
\<close>

fun read_bytes :: "nat \<Rightarrow> string \<Rightarrow> (bytes \<times> string) option" where
  "read_bytes 0 src = Some ([], src)"
| "read_bytes (Suc r) (a # b # rest) =
     (case hex_val a of
        None \<Rightarrow> None
      | Some hi \<Rightarrow>
          (case hex_val b of
             None \<Rightarrow> None
           | Some lo \<Rightarrow>
               (case read_bytes r
                       (if rest \<noteq> [] \<and> hd rest = CHR ''-'' \<and> (15 - r) mod 2 = 1 \<and> 15 - r < 15
                        then tl rest else rest) of
                  None \<Rightarrow> None
                | Some (bs, left) \<Rightarrow> Some (of_nat (hi * 16 + lo) # bs, left))))"
| "read_bytes (Suc r) _ = None"

definition uuid_in :: "string \<Rightarrow> uuid option" where
  "uuid_in s =
     (let braces = (s \<noteq> [] \<and> hd s = CHR ''{'');
          src = (if braces then tl s else s)
      in case read_bytes 16 src of
           None \<Rightarrow> None
         | Some (bs, left) \<Rightarrow>
             if left = (if braces then ''}'' else []) then Some bs else None)"

definition hex_digit :: "nat \<Rightarrow> char" where
  "hex_digit n = ''0123456789abcdef'' ! n"

fun uuid_hex :: "nat \<Rightarrow> bytes \<Rightarrow> string" where
  "uuid_hex i [] = []"
| "uuid_hex i (b # bs) =
     (if i = 4 \<or> i = 6 \<or> i = 8 \<or> i = 10 then ''-'' else [])
     @ [hex_digit (unat b div 16), hex_digit (unat b mod 16)]
     @ uuid_hex (Suc i) bs"

definition uuid_out :: "uuid \<Rightarrow> string" where
  "uuid_out u = uuid_hex 0 u"

section \<open>The scans table\<close>

text \<open>
  The values the upload route passes to \<open>insert(schema.scans).values\<close>: the seven analysis
  fields, the owner and the two image columns.
\<close>

record scan_values = analysis +
  userId :: string
  imageUrl :: string
  imageKey :: string

text \<open>
  A row of \<open>scans\<close>: the inserted values with the two columns the database fills in,
  \<open>id\<close> (\<open>defaultRandom\<close>, the primary key) and \<open>createdAt\<close> (\<open>defaultNow\<close>).
\<close>

record scan = scan_values +
  id' :: uuid
  createdAt :: nat

text \<open>
  A row as a response body; the id is rendered in its canonical spelling and the timestamp
  as its number.
\<close>

definition scan_json :: "scan \<Rightarrow> jsval" where
  "scan_json s =
     JObj [(''id'', JStr (uuid_out (id' s))),
           (''userId'', JStr (userId s)),
           (''imageUrl'', JStr (imageUrl s)),
           (''imageKey'', JStr (imageKey s)),
           (''species'', JStr (species s)),
           (''commonName'', JStr (commonName s)),
           (''isSafeToEat'', JBool (isSafeToEat s)),
           (''isSafeToTouch'', JBool (isSafeToTouch s)),
           (''confidence'', JStr (confidence s)),
           (''warnings'', JStr (warnings s)),
           (''description'', JStr (description s)),
           (''createdAt'', JNum (int (createdAt s)))]"

section \<open>The world outside the routes\<close>

datatype error =
    InvalidMultipartContentType
  | StorageFailure string
  | GatewayFailure string
  | NoObjectGenerated
  | DatabaseFailure string

text \<open>
  Every call a route makes to an external collaborator, with its arguments, and every
  line it logs. A call leaves two events: \<open>Begin\<close> when it is made and \<open>End\<close>, with
  whether it succeeded, when its promise settles.
\<close>

datatype call =
    StorageUpload string bytes
  | StorageGetSignedUrl string
  | GenerateObject string string
  | DbInsert scan_values
  | DbFindMany string
  | DbFindFirst string

datatype level = Info | Warn | Err

datatype event =
    Log level string
  | Begin call
  | End call bool

fun is_call :: "event \<Rightarrow> bool" where
  "is_call (Log _ _) = False"
| "is_call (Begin _) = True"
| "is_call (End _ _) = True"

text \<open>
  The state the collaborators keep between requests: the stored objects by key, the rows
  of the table in insertion order, and the events so far.
\<close>

record world =
  objects :: "string \<Rightarrow> bytes option"
  rows :: "scan list"
  trace :: "event list"

text \<open>
  How the collaborators answer during one request. The storage client, the model gateway
  and the database driver are not part of the repository, so their answers are parameters:
  the clock read by \<open>Date.now()\<close>, the result of \<open>app.storage.upload\<close> and of
  \<open>app.storage.getSignedUrl\<close> for each argument, the raw object the model produces for an
  image and media type, whether the database is failing, and the id and timestamp the
  database would assign to a new row.
\<close>

record env =
  date_now :: nat
  storage_upload :: "string \<Rightarrow> bytes \<Rightarrow> error + string"
  storage_getSignedUrl :: "string \<Rightarrow> error + string"
  gateway :: "string \<Rightarrow> string \<Rightarrow> error + jsval"
  db_fault :: "error option"
  db_random_uuid :: uuid
  db_now :: nat

type_synonym 'a io = "world \<Rightarrow> (error + 'a) \<times> world"

definition emit :: "event \<Rightarrow> world \<Rightarrow> world" where
  "emit e w = w\<lparr>trace := trace w @ [e]\<rparr>"

text \<open>\<open>app.logger.info\<close>, \<open>warn\<close> and \<open>error\<close>, followed by the rest of the handler.\<close>

definition logger :: "level \<Rightarrow> string \<Rightarrow> 'a io \<Rightarrow> 'a io" where
  "logger lvl msg k w = k (emit (Log lvl msg) w)"

text \<open>
  \<open>const x = await m; k(x)\<close>: the continuation runs only after \<open>m\<close> has settled, and a
  rejection of \<open>m\<close> is thrown past it.
\<close>

definition await :: "'a io \<Rightarrow> ('a \<Rightarrow> 'b io) \<Rightarrow> 'b io" where
  "await m k w = (case m w of (Inl e, w') \<Rightarrow> (Inl e, w') | (Inr x, w') \<Rightarrow> k x w')"

definition return :: "'a \<Rightarrow> 'a io" where
  "return x w = (Inr x, w)"

text \<open>A rejected promise or a \<open>throw\<close>: the rest of the block does not run.\<close>

definition throw :: "error \<Rightarrow> 'a io" where
  "throw e w = (Inl e, w)"

text \<open>
  Modelled from the spec: the storage client (\<open>put(key, bytes) -> key\<close>) is not under the
  sources. A successful upload makes the bytes durable under the key it returns; a failed
  one stores nothing.
\<close>

definition app_storage_upload :: "env \<Rightarrow> string \<Rightarrow> bytes \<Rightarrow> string io" where
  "app_storage_upload E key buffer w =
     (let c = StorageUpload key buffer; w1 = emit (Begin c) w
      in case storage_upload E key buffer of
           Inl e \<Rightarrow> (Inl e, emit (End c False) w1)
         | Inr uploadedKey \<Rightarrow>
             (Inr uploadedKey,
              emit (End c True) (w1\<lparr>objects := (objects w1)(uploadedKey \<mapsto> buffer)\<rparr>)))"

text \<open>Modelled from the spec: \<open>sign(key) -> url\<close>, which changes no state.\<close>

definition app_storage_getSignedUrl :: "env \<Rightarrow> string \<Rightarrow> string io" where
  "app_storage_getSignedUrl E key w =
     (let c = StorageGetSignedUrl key; w1 = emit (Begin c) w
      in case storage_getSignedUrl E key of
           Inl e \<Rightarrow> (Inl e, emit (End c False) w1)
         | Inr url \<Rightarrow> (Inr url, emit (End c True) w1))"

text \<open>
  Modelled from the spec: \<open>infer(image bytes, mime, schema) -> schema-shaped object\<close>.
  \<open>generateObject\<close> returns the model's object when it passes \<open>analysisSchema\<close> and fails
  outright otherwise.
\<close>

definition generateObject_result :: "env \<Rightarrow> string \<Rightarrow> string \<Rightarrow> error + analysis" where
  "generateObject_result E img mediaType =
     (case gateway E img mediaType of
        Inl e \<Rightarrow> Inl e
      | Inr raw \<Rightarrow> (case analysisSchema raw of None \<Rightarrow> Inl NoObjectGenerated | Some a \<Rightarrow> Inr a))"

definition generateObject :: "env \<Rightarrow> string \<Rightarrow> string \<Rightarrow> analysis io" where
  "generateObject E img mediaType w =
     (let c = GenerateObject img mediaType; w1 = emit (Begin c) w
      in case generateObject_result E img mediaType of
           Inl e \<Rightarrow> (Inl e, emit (End c False) w1)
         | Inr a \<Rightarrow> (Inr a, emit (End c True) w1))"

text \<open>
  Modelled from the spec: \<open>insert(row) -> row-with-id\<close>. The database assigns \<open>id\<close> and
  \<open>createdAt\<close>, appends the row and returns it; it refuses a second row with the same
  primary key, and inserts nothing when it fails.
\<close>

definition db_insert_result :: "env \<Rightarrow> scan_values \<Rightarrow> scan list \<Rightarrow> error + scan" where
  "db_insert_result E v tbl =
     (case db_fault E of
        Some e \<Rightarrow> Inl e
      | None \<Rightarrow>
          if db_random_uuid E \<in> set (map id' tbl) then Inl (DatabaseFailure ''duplicate key'')
          else Inr \<lparr>species = species v, commonName = commonName v,
                    isSafeToEat = isSafeToEat v, isSafeToTouch = isSafeToTouch v,
                    confidence = confidence v, warnings = warnings v,
                    description = description v,
                    userId = userId v, imageUrl = imageUrl v, imageKey = imageKey v,
                    id' = db_random_uuid E, createdAt = db_now E\<rparr>)"

definition db_insert :: "env \<Rightarrow> scan_values \<Rightarrow> scan io" where
  "db_insert E v w =
     (let c = DbInsert v; w1 = emit (Begin c) w
      in case db_insert_result E v (rows w1) of
           Inl e \<Rightarrow> (Inl e, emit (End c False) w1)
         | Inr row \<Rightarrow> (Inr row, emit (End c True) (w1\<lparr>rows := rows w1 @ [row]\<rparr>)))"

section \<open>POST /api/scans/upload\<close>

text \<open>The file part of a multipart body, with the content its stream would deliver.\<close>

record multipart_file =
  filename :: string
  mimetype :: string
  content :: bytes

text \<open>
  A request after \<open>requireAuth\<close>: the id of the session's user (\<open>None\<close> when there is no
  session and \<open>requireAuth\<close> has already replied), the file part of the body if there is
  one, whether the body is multipart at all (a body with a file part is), and the \<open>:id\<close>
  path parameter.
\<close>

record request =
  session :: "string option"
  file_part :: "multipart_file option"
  isMultipart :: bool
  params_id :: string

text \<open>
  What the caller sees: the reply \<open>requireAuth\<close> sent, a reply with a status and a body,
  or an error thrown out of the handler.
\<close>

datatype outcome =
    AuthReplied
  | Reply nat jsval
  | Raised error

definition fileSize :: nat where
  "fileSize = 10 * 1024 * 1024"

text \<open>
  Modelled from the spec: the multipart reader is not under the sources. Reading the file
  part beyond the cap fails; a part within the cap is read whole.
\<close>

definition toBuffer :: "multipart_file \<Rightarrow> bytes option" where
  "toBuffer data = (if length (content data) > fileSize then None else Some (content data))"

text \<open>
  Modelled from the spec: \<open>request.file()\<close> of the multipart reader. It yields the file
  part, or nothing when a multipart body has none, and it rejects a request whose body is
  not multipart (the reader's error of status 406).
\<close>

definition request_file :: "request \<Rightarrow> error + multipart_file option" where
  "request_file req =
     (case file_part req of
        Some data \<Rightarrow> Inr (Some data)
      | None \<Rightarrow> if isMultipart req then Inr None else Inl InvalidMultipartContentType)"

definition upload_key :: "string \<Rightarrow> nat \<Rightarrow> string \<Rightarrow> string" where
  "upload_key uid now name = ''scans/'' @ uid @ ''/'' @ string_of_nat now @ ''-'' @ name"

definition error_body :: "string \<Rightarrow> jsval" where
  "error_body msg = JObj [(''error'', JStr msg)]"

text \<open>
  The upload handler once the file has been read: the storage write, the signed URL, the
  analysis and the insert, each awaited before the next statement runs.
\<close>

definition upload_steps :: "env \<Rightarrow> string \<Rightarrow> multipart_file \<Rightarrow> bytes \<Rightarrow> outcome io" where
  "upload_steps E uid data buffer =
     (let key = upload_key uid (date_now E) (filename data) in
      logger Info ''Uploading file to storage''
       (await (app_storage_upload E key buffer) (\<lambda>uploadedKey.
        await (app_storage_getSignedUrl E uploadedKey) (\<lambda>url.
        logger Info ''Analyzing image with AI''
         (let base64 = toString_base64 buffer;
              mimeType = (if mimetype data = [] then ''image/jpeg'' else mimetype data) in
          await (generateObject E base64 mimeType) (\<lambda>object.
          logger Info ''AI analysis completed''
           (await (db_insert E
              \<lparr>species = species object, commonName = commonName object,
               isSafeToEat = isSafeToEat object, isSafeToTouch = isSafeToTouch object,
               confidence = confidence object, warnings = warnings object,
               description = description object,
               userId = uid, imageUrl = url, imageKey = uploadedKey\<rparr>) (\<lambda>scan.
            logger Info ''Scan saved to database''
             (return (Reply 200
                (JObj [(''scanId'', JStr (uuid_out (id' scan))),
                       (''imageUrl'', JStr url),
                       (''analysis'', analysis_json object)])))))))))))"

text \<open>The body of the \<open>try\<close> block of the upload handler.\<close>

definition upload_try :: "env \<Rightarrow> request \<Rightarrow> string \<Rightarrow> outcome io" where
  "upload_try E req uid =
     (case request_file req of
        Inl e \<Rightarrow> throw e
      | Inr None \<Rightarrow>
          logger Warn ''No file provided''
            (return (Reply 400 (error_body ''No file provided'')))
      | Inr (Some data) \<Rightarrow>
          (case toBuffer data of
             None \<Rightarrow>
               logger Warn ''File size limit exceeded''
                 (return (Reply 413 (error_body ''File too large'')))
           | Some buffer \<Rightarrow> upload_steps E uid data buffer))"

text \<open>
  A handler's \<open>try\<close>/\<open>catch\<close>: an error thrown inside the block is logged and thrown again.
\<close>

definition try_catch :: "string \<Rightarrow> outcome io \<Rightarrow> world \<Rightarrow> outcome \<times> world" where
  "try_catch msg body w =
     (case body w of
        (Inl e, w') \<Rightarrow> (Raised e, emit (Log Err msg) w')
      | (Inr out, w') \<Rightarrow> (out, w'))"

definition upload_route :: "env \<Rightarrow> request \<Rightarrow> world \<Rightarrow> outcome \<times> world" where
  "upload_route E req w =
     (case session req of
        None \<Rightarrow> (AuthReplied, w)
      | Some uid \<Rightarrow>
          try_catch ''Failed to upload and analyze image''
            (upload_try E req uid)
            (emit (Log Info ''Starting image upload and analysis'') w))"

text \<open>The events of the calls to collaborators that a request added to the trace.\<close>

definition calls_since :: "world \<Rightarrow> world \<Rightarrow> event list" where
  "calls_since w w' = filter is_call (drop (length (trace w)) (trace w'))"

section \<open>GET /api/scans and GET /api/scans/:id\<close>

text \<open>
  Modelled from the spec: \<open>findByOwner-ordered-by-recency\<close>. The query of the list route,
  \<open>where userId = uid order by createdAt desc\<close>: the rows of that owner, latest first.
\<close>

definition findMany_result :: "string \<Rightarrow> scan list \<Rightarrow> scan list" where
  "findMany_result uid tbl = rev (sort_key createdAt (filter (\<lambda>s. userId s = uid) tbl))"

definition db_findMany :: "env \<Rightarrow> string \<Rightarrow> (scan list) io" where
  "db_findMany E uid w =
     (let c = DbFindMany uid; w1 = emit (Begin c) w
      in case db_fault E of
           Some e \<Rightarrow> (Inl e, emit (End c False) w1)
         | None \<Rightarrow> (Inr (findMany_result uid (rows w1)), emit (End c True) w1))"

text \<open>
  Modelled from the spec: \<open>findById\<close>. The query compares the uuid column with the text it
  is given: a text that is no uuid fails the query, and otherwise the result is the first
  row whose id is the uuid read, if there is one.
\<close>

definition findFirst_result :: "string \<Rightarrow> scan list \<Rightarrow> error + scan option" where
  "findFirst_result i tbl =
     (case uuid_in i of
        None \<Rightarrow> Inl (DatabaseFailure ''invalid input syntax for type uuid'')
      | Some u \<Rightarrow> Inr (find (\<lambda>s. id' s = u) tbl))"

definition db_findFirst :: "env \<Rightarrow> string \<Rightarrow> (scan option) io" where
  "db_findFirst E i w =
     (let c = DbFindFirst i; w1 = emit (Begin c) w
      in case db_fault E of
           Some e \<Rightarrow> (Inl e, emit (End c False) w1)
         | None \<Rightarrow>
             (case findFirst_result i (rows w1) of
                Inl e \<Rightarrow> (Inl e, emit (End c False) w1)
              | Inr found \<Rightarrow> (Inr found, emit (End c True) w1)))"

definition scans_route :: "env \<Rightarrow> request \<Rightarrow> world \<Rightarrow> outcome \<times> world" where
  "scans_route E req w =
     (case session req of
        None \<Rightarrow> (AuthReplied, w)
      | Some uid \<Rightarrow>
          try_catch ''Failed to retrieve scans''
            (await (db_findMany E uid) (\<lambda>scans.
             logger Info ''Scans retrieved successfully''
              (return (Reply 200 (JArr (map scan_json scans))))))
            (emit (Log Info ''Retrieving user scans'') w))"

text \<open>
  The handler of \<open>GET /api/scans/:id\<close>. The reply of the last branch is
  \<open>{...scan, imageUrl: url}\<close>: the row with its \<open>imageUrl\<close> replaced.
\<close>

definition scan_by_id_route :: "env \<Rightarrow> request \<Rightarrow> world \<Rightarrow> outcome \<times> world" where
  "scan_by_id_route E req w =
     (case session req of
        None \<Rightarrow> (AuthReplied, w)
      | Some uid \<Rightarrow>
          try_catch ''Failed to retrieve scan''
            (await (db_findFirst E (params_id req)) (\<lambda>found.
               case found of
                 None \<Rightarrow>
                   logger Warn ''Scan not found''
                     (return (Reply 404 (error_body ''Scan not found'')))
               | Some scan \<Rightarrow>
                   if userId scan \<noteq> uid then
                     logger Warn ''Unauthorized access to scan''
                       (return (Reply 403 (error_body ''Unauthorized'')))
                   else
                     await (app_storage_getSignedUrl E (imageKey scan)) (\<lambda>url.
                     logger Info ''Scan retrieved successfully''
                      (return (Reply 200 (scan_json (scan\<lparr>imageUrl := url\<rparr>)))))))
            (emit (Log Info ''Retrieving scan details'') w))"

text \<open>The names of the columns of a row, as they appear as keys of a serialised Scan.\<close>

definition scan_fields :: "string list" where
  "scan_fields = [''id'', ''userId'', ''imageUrl'', ''imageKey'', ''species'', ''commonName'',
                  ''isSafeToEat'', ''isSafeToTouch'', ''confidence'', ''warnings'',
                  ''description'', ''createdAt'']"

text \<open>
  Validation of a serialised analysis against the fixed schema, read strictly: an object
  with the seven fields and no other, four of them strings, two booleans, and the
  confidence one of the three levels.
\<close>

fun is_JStr :: "jsval \<Rightarrow> bool" where
  "is_JStr (JStr _) = True"
| "is_JStr _ = False"

fun is_JBool :: "jsval \<Rightarrow> bool" where
  "is_JBool (JBool _) = True"
| "is_JBool _ = False"

definition validates :: "jsval \<Rightarrow> bool" where
  "validates v =
     (keys v = [''species'', ''commonName'', ''isSafeToEat'', ''isSafeToTouch'',
                ''confidence'', ''warnings'', ''description'']
      \<and> is_JStr (get_prop v ''species'')
      \<and> is_JStr (get_prop v ''commonName'')
      \<and> is_JBool (get_prop v ''isSafeToEat'')
      \<and> is_JBool (get_prop v ''isSafeToTouch'')
      \<and> get_prop v ''confidence'' \<in> set [JStr ''high'', JStr ''medium'', JStr ''low'']
      \<and> is_JStr (get_prop v ''warnings'')
      \<and> is_JStr (get_prop v ''description''))"

section \<open>The client: analyzePlant\<close>

text \<open>The state of the home screen, and the last alert it raised.\<close>

record home_screen =
  selectedImage :: "string option"
  isAnalyzing :: bool
  scanResult :: "jsval option"
  alert :: "(string \<times> string) option"

text \<open>The file object appended to the form data.\<close>

record form_file =
  file_uri :: string
  file_type :: string
  file_name :: string

text \<open>\<open>selectedImage.split('.')\<close>; the result is never empty.\<close>

fun split_dot :: "string \<Rightarrow> string list" where
  "split_dot [] = [[]]"
| "split_dot (c # cs) =
     (if c = CHR ''.'' then [] # split_dot cs
      else (case split_dot cs of [] \<Rightarrow> [[c]] | p # ps \<Rightarrow> (c # p) # ps))"

text \<open>
  The object literal \<open>result\<close> that \<open>analyzePlant\<close> builds from the parsed response
  \<open>uploadData\<close>: every field is read from the top level of the response, with a default
  behind \<open>||\<close>.
\<close>

definition scan_result_of :: "jsval \<Rightarrow> string \<Rightarrow> jsval" where
  "scan_result_of uploadData selected =
     JObj [(''scanId'', js_or (get_prop uploadData ''id'') (get_prop uploadData ''scanId'')),
           (''species'', js_or (get_prop uploadData ''species'') (JStr ''Unknown'')),
           (''commonName'', js_or (get_prop uploadData ''commonName'') (JStr ''Unknown'')),
           (''isSafeToEat'', js_or (get_prop uploadData ''isSafeToEat'') (JBool False)),
           (''isSafeToTouch'', js_or (get_prop uploadData ''isSafeToTouch'') (JBool False)),
           (''confidence'', js_or (get_prop uploadData ''confidence'') (JStr ''low'')),
           (''warnings'', js_or (get_prop uploadData ''warnings'') (JStr [])),
           (''description'',
              js_or (get_prop uploadData ''description'') (JStr ''No description available'')),
           (''imageUrl'', js_or (get_prop uploadData ''imageUrl'') (JStr selected))]"

text \<open>
  \<open>analyzePlant\<close>. It returns at once when no image is selected (\<open>null\<close> or the empty
  string). \<open>user\<close> says whether a user is signed in; \<open>fetch\<close> is the request to
  \<open>/api/scans/upload\<close>, answering with a status and a parsed body or failing with a message.
  Reading a property of a \<open>null\<close> body throws, and every throw inside the \<open>try\<close> ends in the
  error alert.
\<close>

definition analyzePlant ::
  "bool \<Rightarrow> (form_file \<Rightarrow> string + nat \<times> jsval) \<Rightarrow> home_screen \<Rightarrow> home_screen" where
  "analyzePlant user fetch st =
     (case selectedImage st of
        None \<Rightarrow> st
      | Some selected \<Rightarrow>
          if selected = [] then st
          else if \<not> user then
            st\<lparr>alert := Some (''Authentication Required'', ''Please sign in to analyze images.'')\<rparr>
          else
            (let st1 = st\<lparr>isAnalyzing := True, scanResult := None\<rparr>;
                 fileType = last (split_dot selected);
                 formData = \<lparr>file_uri = selected, file_type = ''image/'' @ fileType,
                             file_name = ''scan.'' @ fileType\<rparr>
             in case fetch formData of
                  Inl msg \<Rightarrow> st1\<lparr>isAnalyzing := False, alert := Some (''Error'', msg)\<rparr>
                | Inr (status, uploadData) \<Rightarrow>
                    if \<not> (200 \<le> status \<and> status < 300) then
                      st1\<lparr>isAnalyzing := False,
                          alert := Some (''Error'', ''Upload failed: '' @ string_of_nat status)\<rparr>
                    else if uploadData = JNull \<or> uploadData = JUndefined then
                      st1\<lparr>isAnalyzing := False,
                          alert := Some (''Error'', ''Cannot read properties of null'')\<rparr>
                    else
                      st1\<lparr>scanResult := Some (scan_result_of uploadData selected),
                          isAnalyzing := False\<rparr>))"

section \<open>Names for what the upload route passes on\<close>

text \<open>The values of the \<open>insert\<close> of the upload route, and its \<open>mimeType\<close>.\<close>

definition inserted_values :: "string \<Rightarrow> string \<Rightarrow> string \<Rightarrow> analysis \<Rightarrow> scan_values" where
  "inserted_values uid url k a =
     \<lparr>species = species a, commonName = commonName a,
      isSafeToEat = isSafeToEat a, isSafeToTouch = isSafeToTouch a,
      confidence = confidence a, warnings = warnings a,
      description = description a,
      userId = uid, imageUrl = url, imageKey = k\<rparr>"

definition media_type :: "multipart_file \<Rightarrow> string" where
  "media_type data = (if mimetype data = [] then ''image/jpeg'' else mimetype data)"


section \<open>Example inputs\<close>

text \<open>
  A model answer with one key the schema does not name; collaborators that all succeed at
  time \<open>t\<close>, with a storage client that returns the key it was given and a signer whose
  URL depends on the time; the same with the model gateway down, and with a storage client
  that returns the key behind a prefix of its own; an empty world; a small file and one of
  10 MiB + 1 byte; requests, among them a multipart upload without a file part and an upload
  whose body is not multipart; uuids of one repeated byte; rows of the table, four of them
  with three of one user; the world after a first upload and the row it inserted; a home
  screen with an image selected; and a server that answers the client with a given body.
\<close>

definition nettle :: jsval where
  "nettle =
     JObj [(''species'', JStr ''Urtica dioica''),
           (''commonName'', JStr ''Stinging nettle''),
           (''isSafeToEat'', JBool True),
           (''isSafeToTouch'', JBool False),
           (''confidence'', JStr ''high''),
           (''warnings'', JStr ''Stings bare skin''),
           (''description'', JStr ''A perennial herb''),
           (''notes'', JNum 1)]"

definition env_at :: "nat \<Rightarrow> uuid \<Rightarrow> env" where
  "env_at t uuid =
     \<lparr>date_now = t,
      storage_upload = (\<lambda>key buffer. Inr key),
      storage_getSignedUrl = (\<lambda>key. Inr (''https://cdn.example/'' @ key @ ''?t='' @ string_of_nat t)),
      gateway = (\<lambda>img mediaType. Inr nettle),
      db_fault = None,
      db_random_uuid = uuid,
      db_now = t\<rparr>"

definition world0 :: world where
  "world0 = \<lparr>objects = (\<lambda>key. None), rows = [], trace = []\<rparr>"

definition leaf :: multipart_file where
  "leaf = \<lparr>filename = ''leaf.png'', mimetype = ''image/png'', content = [77, 97, 110]\<rparr>"

definition upload_of :: "string \<Rightarrow> multipart_file \<Rightarrow> request" where
  "upload_of uid data =
     \<lparr>session = Some uid, file_part = Some data, isMultipart = True, params_id = []\<rparr>"

definition get_of :: "string \<Rightarrow> string \<Rightarrow> request" where
  "get_of uid i = \<lparr>session = Some uid, file_part = None, isMultipart = False, params_id = i\<rparr>"

definition upload_without_file :: "string \<Rightarrow> request" where
  "upload_without_file uid =
     \<lparr>session = Some uid, file_part = None, isMultipart = True, params_id = []\<rparr>"

definition upload_not_multipart :: "string \<Rightarrow> request" where
  "upload_not_multipart uid =
     \<lparr>session = Some uid, file_part = None, isMultipart = False, params_id = []\<rparr>"

definition uuid_n :: "8 word \<Rightarrow> uuid" where
  "uuid_n b = [b, b, b, b, b, b, b, b, b, b, b, b, b, b, b, b]"

definition row_of :: "8 word \<Rightarrow> string \<Rightarrow> nat \<Rightarrow> scan" where
  "row_of b uid t =
     \<lparr>species = ''Urtica dioica'', commonName = ''Stinging nettle'',
      isSafeToEat = True, isSafeToTouch = False, confidence = ''high'',
      warnings = ''Stings bare skin'', description = ''A perennial herb'',
      userId = uid, imageUrl = ''https://cdn.example/scans/'' @ uid @ ''/leaf.png?t=1'',
      imageKey = ''scans/'' @ uid @ ''/leaf.png'',
      id' = uuid_n b, createdAt = t\<rparr>"

definition env_model_down :: "nat \<Rightarrow> uuid \<Rightarrow> env" where
  "env_model_down t uuid = (env_at t uuid)\<lparr>gateway := (\<lambda>img mediaType. Inl (GatewayFailure ''timeout''))\<rparr>"

definition env_prefixing :: "nat \<Rightarrow> uuid \<Rightarrow> env" where
  "env_prefixing t uuid = (env_at t uuid)\<lparr>storage_upload := (\<lambda>key buffer. Inr (''stored/'' @ key))\<rparr>"

definition oversized :: multipart_file where
  "oversized = \<lparr>filename = ''big.png'', mimetype = ''image/png'',
                 content = replicate (10 * 1024 * 1024 + 1) 0\<rparr>"

definition table4 :: "scan list" where
  "table4 = [row_of 1 ''u1'' 10, row_of 2 ''u2'' 20, row_of 3 ''u1'' 30,
             row_of 4 ''u1'' 20]"

definition world_of :: "scan list \<Rightarrow> world" where
  "world_of tbl = \<lparr>objects = (\<lambda>key. None), rows = tbl, trace = []\<rparr>"

definition home0 :: home_screen where
  "home0 = \<lparr>selectedImage = Some ''file:///tmp/photo.png'', isAnalyzing = False,
            scanResult = None, alert = None\<rparr>"

definition world1 :: world where
  "world1 = snd (upload_route (env_at 1000 (uuid_n 1)) (upload_of ''u1'' leaf) world0)"

definition scanned :: scan where
  "scanned =
     \<lparr>species = ''Urtica dioica'', commonName = ''Stinging nettle'',
      isSafeToEat = True, isSafeToTouch = False, confidence = ''high'',
      warnings = ''Stings bare skin'', description = ''A perennial herb'',
      userId = ''u1'', imageUrl = ''https://cdn.example/scans/u1/1000-leaf.png?t=1000'',
      imageKey = ''scans/u1/1000-leaf.png'', id' = uuid_n 1, createdAt = 1000\<rparr>"

definition answer_with :: "jsval \<Rightarrow> form_file \<Rightarrow> string + nat \<times> jsval" where
  "answer_with body f = Inr (200, body)"

section \<open>The upload route, step by step\<close>

lemmas io_defs = logger_def await_def return_def emit_def try_catch_def

lemma upload_steps_success:
  assumes up: "storage_upload E (upload_key uid (date_now E) (filename data)) buffer = Inr k"
    and sg: "storage_getSignedUrl E k = Inr url"
    and gen: "generateObject_result E (toString_base64 buffer) (media_type data) = Inr a"
    and ins: "db_insert_result E (inserted_values uid url k a) (rows w) = Inr row"
  shows "upload_steps E uid data buffer w =
     (Inr (Reply 200 (JObj [(''scanId'', JStr (uuid_out (id' row))), (''imageUrl'', JStr url),
                           (''analysis'', analysis_json a)])),
      w\<lparr>objects := (objects w)(k \<mapsto> buffer),
        rows := rows w @ [row],
        trace := trace w @
          [Log Info ''Uploading file to storage'',
           Begin (StorageUpload (upload_key uid (date_now E) (filename data)) buffer),
           End (StorageUpload (upload_key uid (date_now E) (filename data)) buffer) True,
           Begin (StorageGetSignedUrl k),
           End (StorageGetSignedUrl k) True,
           Log Info ''Analyzing image with AI'',
           Begin (GenerateObject (toString_base64 buffer) (media_type data)),
           End (GenerateObject (toString_base64 buffer) (media_type data)) True,
           Log Info ''AI analysis completed'',
           Begin (DbInsert (inserted_values uid url k a)),
           End (DbInsert (inserted_values uid url k a)) True,
           Log Info ''Scan saved to database'']\<rparr>)"
  using assms
  by (simp add: upload_steps_def io_defs app_storage_upload_def app_storage_getSignedUrl_def
      generateObject_def db_insert_def inserted_values_def media_type_def Let_def)

lemma upload_steps_reply:
  assumes "upload_steps E uid data buffer w = (Inr out, w')"
  shows "\<exists>k url a row.
      storage_upload E (upload_key uid (date_now E) (filename data)) buffer = Inr k
    \<and> storage_getSignedUrl E k = Inr url
    \<and> generateObject_result E (toString_base64 buffer) (media_type data) = Inr a
    \<and> db_insert_result E (inserted_values uid url k a) (rows w) = Inr row"
  using assms
  by (auto simp add: upload_steps_def io_defs app_storage_upload_def app_storage_getSignedUrl_def
      generateObject_def db_insert_def inserted_values_def media_type_def Let_def
      split: sum.splits prod.splits)

lemma upload_route_success:
  assumes se: "session req = Some uid" and fi: "file_part req = Some data"
    and sz: "length (content data) \<le> fileSize"
    and up: "storage_upload E (upload_key uid (date_now E) (filename data)) (content data) = Inr k"
    and sg: "storage_getSignedUrl E k = Inr url"
    and gen: "generateObject_result E (toString_base64 (content data)) (media_type data) = Inr a"
    and ins: "db_insert_result E (inserted_values uid url k a) (rows w) = Inr row"
  shows "upload_route E req w =
     (Reply 200 (JObj [(''scanId'', JStr (uuid_out (id' row))), (''imageUrl'', JStr url),
                      (''analysis'', analysis_json a)]),
      w\<lparr>objects := (objects w)(k \<mapsto> content data),
        rows := rows w @ [row],
        trace := trace w @
          [Log Info ''Starting image upload and analysis'',
           Log Info ''Uploading file to storage'',
           Begin (StorageUpload (upload_key uid (date_now E) (filename data)) (content data)),
           End (StorageUpload (upload_key uid (date_now E) (filename data)) (content data)) True,
           Begin (StorageGetSignedUrl k),
           End (StorageGetSignedUrl k) True,
           Log Info ''Analyzing image with AI'',
           Begin (GenerateObject (toString_base64 (content data)) (media_type data)),
           End (GenerateObject (toString_base64 (content data)) (media_type data)) True,
           Log Info ''AI analysis completed'',
           Begin (DbInsert (inserted_values uid url k a)),
           End (DbInsert (inserted_values uid url k a)) True,
           Log Info ''Scan saved to database'']\<rparr>)"
proof -
  let ?w0 = "emit (Log Info ''Starting image upload and analysis'') w"
  have ins': "db_insert_result E (inserted_values uid url k a) (rows ?w0) = Inr row"
    using ins by (simp add: emit_def)
  have "upload_try E req uid ?w0 = upload_steps E uid data (content data) ?w0"
    using fi sz by (simp add: upload_try_def request_file_def toBuffer_def)
  then show ?thesis
    using se upload_steps_success [OF up sg gen ins']
    by (simp add: upload_route_def try_catch_def emit_def)
qed

lemma upload_route_200:
  assumes "upload_route E req w = (Reply 200 body, w')"
  shows "\<exists>uid data k url a row.
      session req = Some uid \<and> file_part req = Some data
    \<and> length (content data) \<le> fileSize
    \<and> storage_upload E (upload_key uid (date_now E) (filename data)) (content data) = Inr k
    \<and> storage_getSignedUrl E k = Inr url
    \<and> generateObject_result E (toString_base64 (content data)) (media_type data) = Inr a
    \<and> db_insert_result E (inserted_values uid url k a) (rows w) = Inr row"
proof -
  obtain uid where se: "session req = Some uid"
    using assms by (cases "session req") (simp_all add: upload_route_def)
  let ?w0 = "emit (Log Info ''Starting image upload and analysis'') w"
  have tr: "upload_try E req uid ?w0 = (Inr (Reply 200 body), w')"
    using assms se
    by (auto simp add: upload_route_def try_catch_def split: prod.splits sum.splits)
  obtain data where fi: "file_part req = Some data"
    using tr
    by (cases "file_part req")
       (simp_all add: upload_try_def request_file_def logger_def return_def throw_def
          split: if_splits)
  have sz: "length (content data) \<le> fileSize"
    using tr fi
    by (cases "length (content data) \<le> fileSize")
       (simp_all add: upload_try_def request_file_def toBuffer_def logger_def return_def)
  have "upload_steps E uid data (content data) ?w0 = (Inr (Reply 200 body), w')"
    using tr fi sz by (simp add: upload_try_def request_file_def toBuffer_def)
  from upload_steps_reply [OF this] se fi sz show ?thesis
    by (auto simp add: emit_def)
qed

subsection \<open>What the schema guarantees\<close>

lemma schema_confidence:
  assumes "analysisSchema raw = Some a"
  shows "confidence a = ''high'' \<or> confidence a = ''medium'' \<or> confidence a = ''low''"
proof -
  obtain kvs where raw: "raw = JObj kvs"
    using assms by (cases raw) (simp_all add: analysisSchema_def)
  from assms raw obtain conf where
    c: "z_enum_confidence (get_prop raw ''confidence'') = Some conf" and a: "confidence a = conf"
    by (auto simp add: analysisSchema_def bind_eq_Some_conv)
  from c have "conf = ''high'' \<or> conf = ''medium'' \<or> conf = ''low''"
    by (cases "get_prop raw ''confidence''") (auto split: if_splits)
  with a show ?thesis by simp
qed

lemma generated_confidence:
  assumes "generateObject_result E img mt = Inr a"
  shows "confidence a = ''high'' \<or> confidence a = ''medium'' \<or> confidence a = ''low''"
  using assms schema_confidence
  by (auto simp add: generateObject_result_def split: sum.splits option.splits)

lemma validates_analysis_json:
  assumes "confidence a = ''high'' \<or> confidence a = ''medium'' \<or> confidence a = ''low''"
  shows "validates (analysis_json a)"
  using assms by (auto simp add: validates_def analysis_json_def)

subsection \<open>The example upload\<close>

lemma nettle_analysis:
  "analysisSchema nettle =
     Some \<lparr>species = ''Urtica dioica'', commonName = ''Stinging nettle'',
           isSafeToEat = True, isSafeToTouch = False, confidence = ''high'',
           warnings = ''Stings bare skin'', description = ''A perennial herb''\<rparr>"
  by (simp add: analysisSchema_def nettle_def)

lemma string_of_1000: "string_of_nat 1000 = ''1000''"
  by (simp add: string_of_nat.simps)

lemma string_of_2000: "string_of_nat 2000 = ''2000''"
  by (simp add: string_of_nat.simps)

lemma uuid_in_examples:
  "uuid_in ''s9'' = None"
  "uuid_in ''09090909-0909-0909-0909-090909090909'' = Some (uuid_n 9)"
  "uuid_in ''02020202-0202-0202-0202-020202020202'' = Some (uuid_n 2)"
  "uuid_in ''{03030303-0303-0303-0303-030303030303}'' = Some (uuid_n 3)"
  "uuid_in ''01010101-0101-0101-0101-010101010101'' = Some (uuid_n 1)"
  by code_simp+

lemma uuid_out_examples:
  "uuid_out (uuid_n 1) = ''01010101-0101-0101-0101-010101010101''"
  "uuid_out (uuid_n 2) = ''02020202-0202-0202-0202-020202020202''"
  "uuid_out (uuid_n 3) = ''03030303-0303-0303-0303-030303030303''"
  "uuid_out (uuid_n 4) = ''04040404-0404-0404-0404-040404040404''"
  by code_simp+

lemma example_upload_reply:
  "fst (upload_route (env_at 1000 (uuid_n 1)) (upload_of ''u1'' leaf) world0) =
     Reply 200
        (JObj [(''scanId'', JStr ''01010101-0101-0101-0101-010101010101''),
               (''imageUrl'', JStr ''https://cdn.example/scans/u1/1000-leaf.png?t=1000''),
               (''analysis'',
                JObj [(''species'', JStr ''Urtica dioica''),
                      (''commonName'', JStr ''Stinging nettle''),
                      (''isSafeToEat'', JBool True),
                      (''isSafeToTouch'', JBool False),
                      (''confidence'', JStr ''high''),
                      (''warnings'', JStr ''Stings bare skin''),
                      (''description'', JStr ''A perennial herb'')])])"
  by (subst upload_route_success [where uid = "''u1''" and data = leaf
        and k = "''scans/u1/1000-leaf.png''"
        and url = "''https://cdn.example/scans/u1/1000-leaf.png?t=1000''"
        and a = "\<lparr>species = ''Urtica dioica'', commonName = ''Stinging nettle'',
          isSafeToEat = True, isSafeToTouch = False, confidence = ''high'',
          warnings = ''Stings bare skin'', description = ''A perennial herb''\<rparr>"
        and row = "\<lparr>species = ''Urtica dioica'', commonName = ''Stinging nettle'',
          isSafeToEat = True, isSafeToTouch = False, confidence = ''high'',
          warnings = ''Stings bare skin'', description = ''A perennial herb'',
          userId = ''u1'', imageUrl = ''https://cdn.example/scans/u1/1000-leaf.png?t=1000'',
          imageKey = ''scans/u1/1000-leaf.png'', id' = uuid_n 1, createdAt = 1000\<rparr>"])
     (simp_all add: upload_of_def leaf_def env_at_def world0_def fileSize_def upload_key_def
        string_of_1000 uuid_out_examples generateObject_result_def nettle_analysis db_insert_result_def
        inserted_values_def analysis_json_def)

lemma example_upload:
  "upload_route (env_at 1000 (uuid_n 1)) (upload_of ''u1'' leaf) world0 =
     (Reply 200
        (JObj [(''scanId'', JStr ''01010101-0101-0101-0101-010101010101''),
               (''imageUrl'', JStr ''https://cdn.example/scans/u1/1000-leaf.png?t=1000''),
               (''analysis'',
                JObj [(''species'', JStr ''Urtica dioica''),
                      (''commonName'', JStr ''Stinging nettle''),
                      (''isSafeToEat'', JBool True),
                      (''isSafeToTouch'', JBool False),
                      (''confidence'', JStr ''high''),
                      (''warnings'', JStr ''Stings bare skin''),
                      (''description'', JStr ''A perennial herb'')])]),
      snd (upload_route (env_at 1000 (uuid_n 1)) (upload_of ''u1'' leaf) world0))"
  using example_upload_reply by (simp add: prod_eq_iff)

section \<open>Rejections of the upload route\<close>

text \<open>
  Claim C1. An upload whose file part exceeds the cap of 10 MiB, and so one of exactly
  10 MiB + 1 byte, is answered with 413 "File too large"; the request makes no call to the
  storage client, the model or the database, and leaves the stored objects and the rows as
  they were.
\<close>

theorem upload_over_cap_is_413:
  assumes "session req = Some uid" and "file_part req = Some data"
    and "length (content data) > 10 * 1024 * 1024"
  shows "fst (upload_route E req w) = Reply 413 (error_body ''File too large'')
       \<and> calls_since w (snd (upload_route E req w)) = []
       \<and> objects (snd (upload_route E req w)) = objects w
       \<and> rows (snd (upload_route E req w)) = rows w"
  using assms
  by (simp add: upload_route_def upload_try_def request_file_def toBuffer_def fileSize_def
      io_defs calls_since_def)

theorem upload_over_cap_is_413_witness:
  "length (content oversized) = 10 * 1024 * 1024 + 1
   \<and> fst (upload_route (env_at 1000 (uuid_n 1)) (upload_of ''u1'' oversized) world0) =
       Reply 413 (JObj [(''error'', JStr ''File too large'')])
   \<and> calls_since world0
        (snd (upload_route (env_at 1000 (uuid_n 1)) (upload_of ''u1'' oversized) world0)) = []
   \<and> rows (snd (upload_route (env_at 1000 (uuid_n 1)) (upload_of ''u1'' oversized) world0)) = []"
  using upload_over_cap_is_413 [of "upload_of ''u1'' oversized" "''u1''" oversized
      "env_at 1000 (uuid_n 1)" world0]
  by (simp add: upload_of_def oversized_def world0_def error_body_def)

text \<open>
  Claim C8, amended. An authenticated upload that carries no file part makes no call to the
  storage client, the model or the database. When its body is multipart it is answered with
  400 "No file provided"; when its body is not multipart, \<open>request.file()\<close> rejects and the
  error is thrown on to the caller.
\<close>

theorem upload_without_file_is_400:
  assumes "session req = Some uid" and "file_part req = None"
  shows "(isMultipart req \<longrightarrow>
            fst (upload_route E req w) = Reply 400 (JObj [(''error'', JStr ''No file provided'')]))
       \<and> (\<not> isMultipart req \<longrightarrow>
            fst (upload_route E req w) = Raised InvalidMultipartContentType)
       \<and> calls_since w (snd (upload_route E req w)) = []
       \<and> objects (snd (upload_route E req w)) = objects w
       \<and> rows (snd (upload_route E req w)) = rows w"
  using assms
  by (simp add: upload_route_def upload_try_def request_file_def throw_def error_body_def
      io_defs calls_since_def)

theorem upload_without_file_is_400_witness:
  "fst (upload_route (env_at 1000 (uuid_n 1)) (upload_without_file ''u1'') world0) =
       Reply 400 (JObj [(''error'', JStr ''No file provided'')])
   \<and> calls_since world0
        (snd (upload_route (env_at 1000 (uuid_n 1)) (upload_without_file ''u1'') world0)) = []
   \<and> rows (snd (upload_route (env_at 1000 (uuid_n 1)) (upload_without_file ''u1'') world0)) = []
   \<and> fst (upload_route (env_at 1000 (uuid_n 1)) (upload_not_multipart ''u1'') world0) =
       Raised InvalidMultipartContentType
   \<and> calls_since world0
        (snd (upload_route (env_at 1000 (uuid_n 1)) (upload_not_multipart ''u1'') world0)) = []"
  using upload_without_file_is_400 [of "upload_without_file ''u1''" "''u1''"
      "env_at 1000 (uuid_n 1)" world0]
    upload_without_file_is_400 [of "upload_not_multipart ''u1''" "''u1''"
      "env_at 1000 (uuid_n 1)" world0]
  by (simp add: upload_without_file_def upload_not_multipart_def world0_def)

text \<open>
  Claim C8 as it was stated fails: an authenticated request with a body that is not
  multipart carries no file part, and the route does not answer it with 400.
\<close>

theorem upload_not_multipart_counterexample:
  "session (upload_not_multipart ''u1'') = Some ''u1''
   \<and> file_part (upload_not_multipart ''u1'') = None
   \<and> fst (upload_route (env_at 1000 (uuid_n 1)) (upload_not_multipart ''u1'') world0) =
       Raised InvalidMultipartContentType
   \<and> fst (upload_route (env_at 1000 (uuid_n 1)) (upload_not_multipart ''u1'') world0) \<noteq>
       Reply 400 (JObj [(''error'', JStr ''No file provided'')])"
  by (simp add: upload_not_multipart_def upload_route_def upload_try_def request_file_def
      throw_def io_defs)

section \<open>The successful upload\<close>

text \<open>
  Claim C5. When the session is valid, the file is within the cap and the storage write,
  the signing, the analysis and the insert all succeed, the reply is 200 with the body
  \<open>{scanId, imageUrl, analysis}\<close>; the analysis object has exactly the seven fields of the
  schema, its confidence is high, medium or low, and its two safety flags are booleans.
\<close>

theorem upload_reply_validates:
  assumes "session req = Some uid" and "file_part req = Some data"
    and "length (content data) \<le> 10 * 1024 * 1024"
    and "storage_upload E (upload_key uid (date_now E) (filename data)) (content data) = Inr k"
    and "storage_getSignedUrl E k = Inr url"
    and "generateObject_result E (toString_base64 (content data)) (media_type data) = Inr a"
    and "db_insert_result E (inserted_values uid url k a) (rows w) = Inr row"
  shows "fst (upload_route E req w) =
           Reply 200 (JObj [(''scanId'', JStr (uuid_out (id' row))), (''imageUrl'', JStr url),
                            (''analysis'', analysis_json a)])
       \<and> keys (analysis_json a) =
           [''species'', ''commonName'', ''isSafeToEat'', ''isSafeToTouch'',
            ''confidence'', ''warnings'', ''description'']
       \<and> get_prop (analysis_json a) ''confidence'' \<in> {JStr ''high'', JStr ''medium'', JStr ''low''}
       \<and> is_JBool (get_prop (analysis_json a) ''isSafeToEat'')
       \<and> is_JBool (get_prop (analysis_json a) ''isSafeToTouch'')
       \<and> validates (analysis_json a)"
proof -
  have sz: "length (content data) \<le> fileSize"
    using assms(3) by (simp add: fileSize_def)
  have run: "fst (upload_route E req w) =
           Reply 200 (JObj [(''scanId'', JStr (uuid_out (id' row))), (''imageUrl'', JStr url),
                            (''analysis'', analysis_json a)])"
    using upload_route_success [OF assms(1,2) sz assms(4-7)] by simp
  have conf: "confidence a = ''high'' \<or> confidence a = ''medium'' \<or> confidence a = ''low''"
    using assms(6) by (rule generated_confidence)
  have v: "validates (analysis_json a)"
    using conf by (rule validates_analysis_json)
  from v have rest: "keys (analysis_json a) =
           [''species'', ''commonName'', ''isSafeToEat'', ''isSafeToTouch'',
            ''confidence'', ''warnings'', ''description'']
       \<and> get_prop (analysis_json a) ''confidence'' \<in> {JStr ''high'', JStr ''medium'', JStr ''low''}
       \<and> is_JBool (get_prop (analysis_json a) ''isSafeToEat'')
       \<and> is_JBool (get_prop (analysis_json a) ''isSafeToTouch'')"
    by (simp add: validates_def)
  from run rest v show ?thesis by simp
qed

theorem upload_reply_validates_witness:
  "fst (upload_route (env_at 1000 (uuid_n 1)) (upload_of ''u1'' leaf) world0) =
     Reply 200
       (JObj [(''scanId'', JStr ''01010101-0101-0101-0101-010101010101''),
              (''imageUrl'', JStr ''https://cdn.example/scans/u1/1000-leaf.png?t=1000''),
              (''analysis'',
               JObj [(''species'', JStr ''Urtica dioica''),
                     (''commonName'', JStr ''Stinging nettle''),
                     (''isSafeToEat'', JBool True),
                     (''isSafeToTouch'', JBool False),
                     (''confidence'', JStr ''high''),
                     (''warnings'', JStr ''Stings bare skin''),
                     (''description'', JStr ''A perennial herb'')])])
   \<and> validates
       (JObj [(''species'', JStr ''Urtica dioica''),
              (''commonName'', JStr ''Stinging nettle''),
              (''isSafeToEat'', JBool True),
              (''isSafeToTouch'', JBool False),
              (''confidence'', JStr ''high''),
              (''warnings'', JStr ''Stings bare skin''),
              (''description'', JStr ''A perennial herb'')])"
  using upload_reply_validates [where req = "upload_of ''u1'' leaf" and uid = "''u1''"
      and data = leaf and E = "env_at 1000 (uuid_n 1)" and w = world0
      and k = "''scans/u1/1000-leaf.png''"
      and url = "''https://cdn.example/scans/u1/1000-leaf.png?t=1000''"
      and a = "\<lparr>species = ''Urtica dioica'', commonName = ''Stinging nettle'',
        isSafeToEat = True, isSafeToTouch = False, confidence = ''high'',
        warnings = ''Stings bare skin'', description = ''A perennial herb''\<rparr>"
      and row = "\<lparr>species = ''Urtica dioica'', commonName = ''Stinging nettle'',
        isSafeToEat = True, isSafeToTouch = False, confidence = ''high'',
        warnings = ''Stings bare skin'', description = ''A perennial herb'',
        userId = ''u1'', imageUrl = ''https://cdn.example/scans/u1/1000-leaf.png?t=1000'',
        imageKey = ''scans/u1/1000-leaf.png'', id' = uuid_n 1, createdAt = 1000\<rparr>"]
  by (simp add: upload_of_def leaf_def env_at_def world0_def upload_key_def
      string_of_1000 uuid_out_examples generateObject_result_def nettle_analysis db_insert_result_def
      inserted_values_def analysis_json_def media_type_def b64_def)

text \<open>
  Claim C7. In every execution of the upload route that replies 200, the calls to the
  collaborators are made one after the other: the storage write has settled before the URL
  is signed and the analysis begins, and the analysis has settled before the insert begins.
\<close>

theorem upload_calls_sequential:
  assumes "upload_route E req w = (Reply 200 body, w')"
  shows "\<exists>key buffer k img mediaType v.
      calls_since w w' =
        [Begin (StorageUpload key buffer), End (StorageUpload key buffer) True,
         Begin (StorageGetSignedUrl k), End (StorageGetSignedUrl k) True,
         Begin (GenerateObject img mediaType), End (GenerateObject img mediaType) True,
         Begin (DbInsert v), End (DbInsert v) True]"
proof -
  from upload_route_200 [OF assms] obtain uid data k url a row where
    h: "session req = Some uid" "file_part req = Some data"
       "length (content data) \<le> fileSize"
       "storage_upload E (upload_key uid (date_now E) (filename data)) (content data) = Inr k"
       "storage_getSignedUrl E k = Inr url"
       "generateObject_result E (toString_base64 (content data)) (media_type data) = Inr a"
       "db_insert_result E (inserted_values uid url k a) (rows w) = Inr row"
    by blast
  have "calls_since w w' =
        [Begin (StorageUpload (upload_key uid (date_now E) (filename data)) (content data)),
         End (StorageUpload (upload_key uid (date_now E) (filename data)) (content data)) True,
         Begin (StorageGetSignedUrl k), End (StorageGetSignedUrl k) True,
         Begin (GenerateObject (toString_base64 (content data)) (media_type data)),
         End (GenerateObject (toString_base64 (content data)) (media_type data)) True,
         Begin (DbInsert (inserted_values uid url k a)),
         End (DbInsert (inserted_values uid url k a)) True]"
    using assms upload_route_success [OF h] by (auto simp add: calls_since_def)
  then show ?thesis by blast
qed

theorem upload_calls_sequential_witness:
  "\<exists>key buffer k img mediaType v.
      calls_since world0 (snd (upload_route (env_at 1000 (uuid_n 1)) (upload_of ''u1'' leaf) world0)) =
        [Begin (StorageUpload key buffer), End (StorageUpload key buffer) True,
         Begin (StorageGetSignedUrl k), End (StorageGetSignedUrl k) True,
         Begin (GenerateObject img mediaType), End (GenerateObject img mediaType) True,
         Begin (DbInsert v), End (DbInsert v) True]"
  by (rule upload_calls_sequential [OF example_upload])

section \<open>A failure after the storage write\<close>

text \<open>
  Claim C6. When the storage write and the signing succeed and the analysis then fails, the
  error is thrown on to the caller unchanged, no row is inserted (the insert is never
  called), and the object just stored stays in storage: after the analysis the route makes
  no further call, so nothing deletes it.
\<close>

theorem analysis_failure_leaves_orphan:
  assumes "session req = Some uid" and "file_part req = Some data"
    and "length (content data) \<le> 10 * 1024 * 1024"
    and "storage_upload E (upload_key uid (date_now E) (filename data)) (content data) = Inr k"
    and "storage_getSignedUrl E k = Inr url"
    and "generateObject_result E (toString_base64 (content data)) (media_type data) = Inl e"
  shows "fst (upload_route E req w) = Raised e
       \<and> rows (snd (upload_route E req w)) = rows w
       \<and> objects (snd (upload_route E req w)) = (objects w)(k \<mapsto> content data)
       \<and> calls_since w (snd (upload_route E req w)) =
           [Begin (StorageUpload (upload_key uid (date_now E) (filename data)) (content data)),
            End (StorageUpload (upload_key uid (date_now E) (filename data)) (content data)) True,
            Begin (StorageGetSignedUrl k),
            End (StorageGetSignedUrl k) True,
            Begin (GenerateObject (toString_base64 (content data)) (media_type data)),
            End (GenerateObject (toString_base64 (content data)) (media_type data)) False]"
  using assms
  by (simp add: upload_route_def upload_try_def request_file_def upload_steps_def toBuffer_def
      fileSize_def io_defs app_storage_upload_def app_storage_getSignedUrl_def generateObject_def
      media_type_def calls_since_def Let_def)

theorem analysis_failure_leaves_orphan_witness:
  "fst (upload_route (env_model_down 1000 (uuid_n 1)) (upload_of ''u1'' leaf) world0) =
       Raised (GatewayFailure ''timeout'')
   \<and> rows (snd (upload_route (env_model_down 1000 (uuid_n 1)) (upload_of ''u1'' leaf) world0)) = []
   \<and> objects (snd (upload_route (env_model_down 1000 (uuid_n 1)) (upload_of ''u1'' leaf) world0))
        ''scans/u1/1000-leaf.png'' = Some [77, 97, 110]
   \<and> calls_since world0
        (snd (upload_route (env_model_down 1000 (uuid_n 1)) (upload_of ''u1'' leaf) world0)) =
       [Begin (StorageUpload ''scans/u1/1000-leaf.png'' [77, 97, 110]),
        End (StorageUpload ''scans/u1/1000-leaf.png'' [77, 97, 110]) True,
        Begin (StorageGetSignedUrl ''scans/u1/1000-leaf.png''),
        End (StorageGetSignedUrl ''scans/u1/1000-leaf.png'') True,
        Begin (GenerateObject ''TWFu'' ''image/png''),
        End (GenerateObject ''TWFu'' ''image/png'') False]"
  using analysis_failure_leaves_orphan [where req = "upload_of ''u1'' leaf" and uid = "''u1''"
      and data = leaf and E = "env_model_down 1000 (uuid_n 1)" and w = world0
      and k = "''scans/u1/1000-leaf.png''"
      and url = "''https://cdn.example/scans/u1/1000-leaf.png?t=1000''"
      and e = "GatewayFailure ''timeout''"]
  by (simp add: upload_of_def leaf_def env_model_down_def env_at_def world0_def upload_key_def
      string_of_1000 generateObject_result_def media_type_def b64_def)

section \<open>Listing the scans of a user\<close>

lemma scans_route_ok:
  assumes "session req = Some uid" and "db_fault E = None"
  shows "scans_route E req w =
     (Reply 200 (JArr (map scan_json (findMany_result uid (rows w)))),
      w\<lparr>trace := trace w @
          [Log Info ''Retrieving user scans'', Begin (DbFindMany uid),
           End (DbFindMany uid) True, Log Info ''Scans retrieved successfully'']\<rparr>)"
  using assms by (simp add: scans_route_def db_findMany_def io_defs Let_def)

lemma findMany_sorted:
  "sorted_wrt (\<lambda>a b. createdAt a \<ge> createdAt b) (findMany_result uid tbl)"
proof -
  have "sorted (map createdAt (sort_key createdAt (filter (\<lambda>s. userId s = uid) tbl)))"
    by (rule sorted_sort_key)
  then have "sorted_wrt (\<lambda>a b. createdAt a \<le> createdAt b)
               (sort_key createdAt (filter (\<lambda>s. userId s = uid) tbl))"
    by (simp add: sorted_map)
  then show ?thesis
    by (simp add: findMany_result_def sorted_wrt_rev)
qed

lemma findMany_mset:
  "mset (findMany_result uid tbl) = filter_mset (\<lambda>s. userId s = uid) (mset tbl)"
  by (simp add: findMany_result_def)

text \<open>
  Claim C4. For an authenticated \<open>GET /api/scans\<close> with the database answering, the reply
  is 200 with the rows whose owner is the session's user: all of them and no row of another
  user, each once, in descending order of \<open>createdAt\<close>. A user with three rows gets three
  records.
\<close>

theorem list_scans_of_owner:
  assumes "session req = Some uid" and "db_fault E = None"
  shows "fst (scans_route E req w) = Reply 200 (JArr (map scan_json (findMany_result uid (rows w))))
       \<and> mset (findMany_result uid (rows w)) = filter_mset (\<lambda>s. userId s = uid) (mset (rows w))
       \<and> length (findMany_result uid (rows w)) = length (filter (\<lambda>s. userId s = uid) (rows w))
       \<and> sorted_wrt (\<lambda>a b. createdAt a \<ge> createdAt b) (findMany_result uid (rows w))"
proof -
  have "length (findMany_result uid (rows w)) = length (filter (\<lambda>s. userId s = uid) (rows w))"
    by (simp add: findMany_result_def)
  then show ?thesis
    using scans_route_ok [OF assms, of w] findMany_sorted [of uid "rows w"]
      findMany_mset [of uid "rows w"]
    by simp
qed

lemma findMany_table4:
  "findMany_result ''u1'' table4 = [row_of 3 ''u1'' 30, row_of 4 ''u1'' 20, row_of 1 ''u1'' 10]"
  by (simp add: findMany_result_def table4_def row_of_def)

theorem list_scans_of_owner_witness:
  "fst (scans_route (env_at 2000 (uuid_n 9)) (get_of ''u1'' []) (world_of table4)) =
     Reply 200 (JArr (map scan_json
       [row_of 3 ''u1'' 30, row_of 4 ''u1'' 20, row_of 1 ''u1'' 10]))
   \<and> length (filter (\<lambda>s. userId s = ''u1'') table4) = 3
   \<and> map createdAt (findMany_result ''u1'' table4) = [30, 20, 10]"
  using list_scans_of_owner [of "get_of ''u1'' []" "''u1''" "env_at 2000 (uuid_n 9)" "world_of table4"]
  by (simp add: get_of_def env_at_def world_of_def findMany_table4)
     (simp add: table4_def row_of_def)

section \<open>Reading one scan\<close>

lemma scan_by_id_malformed:
  assumes "session req = Some uid" and "db_fault E = None"
    and "uuid_in (params_id req) = None"
  shows "scan_by_id_route E req w =
     (Raised (DatabaseFailure ''invalid input syntax for type uuid''),
      w\<lparr>trace := trace w @
          [Log Info ''Retrieving scan details'', Begin (DbFindFirst (params_id req)),
           End (DbFindFirst (params_id req)) False, Log Err ''Failed to retrieve scan'']\<rparr>)"
  using assms
  by (simp add: scan_by_id_route_def db_findFirst_def findFirst_result_def io_defs Let_def)

lemma scan_by_id_absent:
  assumes "session req = Some uid" and "db_fault E = None"
    and "uuid_in (params_id req) = Some u"
    and "find (\<lambda>s. id' s = u) (rows w) = None"
  shows "scan_by_id_route E req w =
     (Reply 404 (error_body ''Scan not found''),
      w\<lparr>trace := trace w @
          [Log Info ''Retrieving scan details'', Begin (DbFindFirst (params_id req)),
           End (DbFindFirst (params_id req)) True, Log Warn ''Scan not found'']\<rparr>)"
  using assms
  by (simp add: scan_by_id_route_def db_findFirst_def findFirst_result_def io_defs Let_def)

lemma scan_by_id_foreign:
  assumes "session req = Some uid" and "db_fault E = None"
    and "uuid_in (params_id req) = Some u"
    and "find (\<lambda>s. id' s = u) (rows w) = Some scan" and "userId scan \<noteq> uid"
  shows "scan_by_id_route E req w =
     (Reply 403 (error_body ''Unauthorized''),
      w\<lparr>trace := trace w @
          [Log Info ''Retrieving scan details'', Begin (DbFindFirst (params_id req)),
           End (DbFindFirst (params_id req)) True, Log Warn ''Unauthorized access to scan'']\<rparr>)"
  using assms
  by (simp add: scan_by_id_route_def db_findFirst_def findFirst_result_def io_defs Let_def)

lemma scan_by_id_own:
  assumes "session req = Some uid" and "db_fault E = None"
    and "uuid_in (params_id req) = Some u"
    and "find (\<lambda>s. id' s = u) (rows w) = Some scan" and "userId scan = uid"
    and "storage_getSignedUrl E (imageKey scan) = Inr url"
  shows "scan_by_id_route E req w =
     (Reply 200 (scan_json (scan\<lparr>imageUrl := url\<rparr>)),
      w\<lparr>trace := trace w @
          [Log Info ''Retrieving scan details'', Begin (DbFindFirst (params_id req)),
           End (DbFindFirst (params_id req)) True,
           Begin (StorageGetSignedUrl (imageKey scan)),
           End (StorageGetSignedUrl (imageKey scan)) True,
           Log Info ''Scan retrieved successfully'']\<rparr>)"
  using assms
  by (simp add: scan_by_id_route_def db_findFirst_def findFirst_result_def
      app_storage_getSignedUrl_def io_defs Let_def)

text \<open>
  Claim C3. The sentence fails in its first case. The table holds four scans, none with the
  id \<open>s9\<close>. A \<open>GET /api/scans/s9\<close> of a signed-in user is not answered with 404: the route
  hands the text to the query on the uuid column, the query fails on it, and the error is
  thrown on to the caller. An id that is a uuid and absent from the table gets the 404; the
  scan of another user gets 403 with a body that carries only \<open>error\<close>; and the user's own
  scan, asked for in another spelling of its id, comes back with the URL just signed.
\<close>

theorem get_by_id_malformed_id_raises:
  "map (\<lambda>s. uuid_out (id' s)) table4 =
     [''01010101-0101-0101-0101-010101010101'', ''02020202-0202-0202-0202-020202020202'',
      ''03030303-0303-0303-0303-030303030303'', ''04040404-0404-0404-0404-040404040404'']
   \<and> scan_by_id_route (env_at 2000 (uuid_n 9)) (get_of ''u1'' ''s9'') (world_of table4) =
       (Raised (DatabaseFailure ''invalid input syntax for type uuid''),
        (world_of table4)\<lparr>trace :=
          [Log Info ''Retrieving scan details'', Begin (DbFindFirst ''s9''),
           End (DbFindFirst ''s9'') False, Log Err ''Failed to retrieve scan'']\<rparr>)
   \<and> fst (scan_by_id_route (env_at 2000 (uuid_n 9))
            (get_of ''u1'' ''09090909-0909-0909-0909-090909090909'') (world_of table4)) =
       Reply 404 (JObj [(''error'', JStr ''Scan not found'')])
   \<and> fst (scan_by_id_route (env_at 2000 (uuid_n 9))
            (get_of ''u1'' ''02020202-0202-0202-0202-020202020202'') (world_of table4)) =
       Reply 403 (JObj [(''error'', JStr ''Unauthorized'')])
   \<and> fst (scan_by_id_route (env_at 2000 (uuid_n 9))
            (get_of ''u1'' ''{03030303-0303-0303-0303-030303030303}'') (world_of table4)) =
       Reply 200
         (JObj [(''id'', JStr ''03030303-0303-0303-0303-030303030303''),
                (''userId'', JStr ''u1''),
                (''imageUrl'', JStr ''https://cdn.example/scans/u1/leaf.png?t=2000''),
                (''imageKey'', JStr ''scans/u1/leaf.png''),
                (''species'', JStr ''Urtica dioica''),
                (''commonName'', JStr ''Stinging nettle''),
                (''isSafeToEat'', JBool True),
                (''isSafeToTouch'', JBool False),
                (''confidence'', JStr ''high''),
                (''warnings'', JStr ''Stings bare skin''),
                (''description'', JStr ''A perennial herb''),
                (''createdAt'', JNum 30)])"
proof -
  have se: "\<And>i. session (get_of ''u1'' i) = Some ''u1''"
    and pid: "\<And>i. params_id (get_of ''u1'' i) = i"
    by (simp_all add: get_of_def)
  have db: "db_fault (env_at 2000 (uuid_n 9)) = None"
    by (simp add: env_at_def)
  have tbl: "rows (world_of table4) = table4" "trace (world_of table4) = []"
    by (simp_all add: world_of_def)
  have ids: "map (\<lambda>s. uuid_out (id' s)) table4 =
     [''01010101-0101-0101-0101-010101010101'', ''02020202-0202-0202-0202-020202020202'',
      ''03030303-0303-0303-0303-030303030303'', ''04040404-0404-0404-0404-040404040404'']"
    by (simp add: table4_def row_of_def uuid_out_examples)
  have bad: "uuid_in (params_id (get_of ''u1'' ''s9'')) = None"
    by (simp add: pid uuid_in_examples)
  have r500: "scan_by_id_route (env_at 2000 (uuid_n 9)) (get_of ''u1'' ''s9'') (world_of table4) =
       (Raised (DatabaseFailure ''invalid input syntax for type uuid''),
        (world_of table4)\<lparr>trace :=
          [Log Info ''Retrieving scan details'', Begin (DbFindFirst ''s9''),
           End (DbFindFirst ''s9'') False, Log Err ''Failed to retrieve scan'']\<rparr>)"
    using scan_by_id_malformed [OF se db bad, of "world_of table4"] by (simp add: pid tbl)
  have u9: "uuid_in (params_id (get_of ''u1'' ''09090909-0909-0909-0909-090909090909'')) =
      Some (uuid_n 9)"
    by (simp add: pid uuid_in_examples)
  have none9: "find (\<lambda>s. id' s = uuid_n 9) (rows (world_of table4)) = None"
    by (simp add: world_of_def table4_def row_of_def uuid_n_def)
  have r404: "fst (scan_by_id_route (env_at 2000 (uuid_n 9))
            (get_of ''u1'' ''09090909-0909-0909-0909-090909090909'') (world_of table4)) =
       Reply 404 (JObj [(''error'', JStr ''Scan not found'')])"
    using scan_by_id_absent [OF se db u9 none9] by (simp add: error_body_def)
  have u2: "uuid_in (params_id (get_of ''u1'' ''02020202-0202-0202-0202-020202020202'')) =
      Some (uuid_n 2)"
    by (simp add: pid uuid_in_examples)
  have some2: "find (\<lambda>s. id' s = uuid_n 2) (rows (world_of table4)) = Some (row_of 2 ''u2'' 20)"
    by (simp add: world_of_def table4_def row_of_def uuid_n_def)
  have other: "userId (row_of 2 ''u2'' 20) \<noteq> ''u1''"
    by (simp add: row_of_def)
  have r403: "fst (scan_by_id_route (env_at 2000 (uuid_n 9))
            (get_of ''u1'' ''02020202-0202-0202-0202-020202020202'') (world_of table4)) =
       Reply 403 (JObj [(''error'', JStr ''Unauthorized'')])"
    using scan_by_id_foreign [OF se db u2 some2 other] by (simp add: error_body_def)
  have u3: "uuid_in (params_id (get_of ''u1'' ''{03030303-0303-0303-0303-030303030303}'')) =
      Some (uuid_n 3)"
    by (simp add: pid uuid_in_examples)
  have some3: "find (\<lambda>s. id' s = uuid_n 3) (rows (world_of table4)) = Some (row_of 3 ''u1'' 30)"
    by (simp add: world_of_def table4_def row_of_def uuid_n_def)
  have own: "userId (row_of 3 ''u1'' 30) = ''u1''"
    by (simp add: row_of_def)
  have sign: "storage_getSignedUrl (env_at 2000 (uuid_n 9)) (imageKey (row_of 3 ''u1'' 30)) =
      Inr ''https://cdn.example/scans/u1/leaf.png?t=2000''"
    by (simp add: env_at_def row_of_def string_of_2000)
  have r200: "fst (scan_by_id_route (env_at 2000 (uuid_n 9))
            (get_of ''u1'' ''{03030303-0303-0303-0303-030303030303}'') (world_of table4)) =
       Reply 200
         (JObj [(''id'', JStr ''03030303-0303-0303-0303-030303030303''),
                (''userId'', JStr ''u1''),
                (''imageUrl'', JStr ''https://cdn.example/scans/u1/leaf.png?t=2000''),
                (''imageKey'', JStr ''scans/u1/leaf.png''),
                (''species'', JStr ''Urtica dioica''),
                (''commonName'', JStr ''Stinging nettle''),
                (''isSafeToEat'', JBool True),
                (''isSafeToTouch'', JBool False),
                (''confidence'', JStr ''high''),
                (''warnings'', JStr ''Stings bare skin''),
                (''description'', JStr ''A perennial herb''),
                (''createdAt'', JNum 30)])"
    using scan_by_id_own [OF se db u3 some3 own sign]
    by (simp add: scan_json_def row_of_def uuid_out_examples)
  from ids r500 r404 r403 r200 show ?thesis by simp
qed

section \<open>The key of the stored image\<close>

lemma db_insert_result_fields:
  assumes "db_insert_result E v tbl = Inr row"
  shows "imageKey row = imageKey v \<and> imageUrl row = imageUrl v \<and> userId row = userId v
       \<and> id' row = db_random_uuid E \<and> createdAt row = db_now E"
  using assms
  by (auto simp add: db_insert_result_def split: option.splits if_splits)

text \<open>
  Claim C9, amended. In every upload that replies 200, the key the route passes to the
  storage write is \<open>scans/<user id>/<Date.now()>-<filename>\<close>. The row inserted records as
  \<open>imageKey\<close> the key the storage client returned for that write, under which the bytes
  are then held and which is the one that gets signed; the signed URL goes to the separate
  column \<open>imageUrl\<close>.
\<close>

theorem upload_key_recorded:
  assumes run: "upload_route E req w = (Reply 200 body, w')"
    and se: "session req = Some uid" and fi: "file_part req = Some data"
  shows "\<exists>k url row.
      storage_upload E
        (''scans/'' @ uid @ ''/'' @ string_of_nat (date_now E) @ ''-'' @ filename data)
        (content data) = Inr k
    \<and> take 2 (calls_since w w') =
        [Begin (StorageUpload
           (''scans/'' @ uid @ ''/'' @ string_of_nat (date_now E) @ ''-'' @ filename data)
           (content data)),
         End (StorageUpload
           (''scans/'' @ uid @ ''/'' @ string_of_nat (date_now E) @ ''-'' @ filename data)
           (content data)) True]
    \<and> objects w' k = Some (content data)
    \<and> rows w' = rows w @ [row]
    \<and> userId row = uid
    \<and> imageKey row = k
    \<and> storage_getSignedUrl E k = Inr url
    \<and> imageUrl row = url"
proof -
  from upload_route_200 [OF run] se fi obtain k url a row where
    sz: "length (content data) \<le> fileSize"
    and up: "storage_upload E (upload_key uid (date_now E) (filename data)) (content data) = Inr k"
    and sg: "storage_getSignedUrl E k = Inr url"
    and gen: "generateObject_result E (toString_base64 (content data)) (media_type data) = Inr a"
    and ins: "db_insert_result E (inserted_values uid url k a) (rows w) = Inr row"
    by auto
  have w': "w' = w\<lparr>objects := (objects w)(k \<mapsto> content data),
        rows := rows w @ [row],
        trace := trace w @
          [Log Info ''Starting image upload and analysis'',
           Log Info ''Uploading file to storage'',
           Begin (StorageUpload (upload_key uid (date_now E) (filename data)) (content data)),
           End (StorageUpload (upload_key uid (date_now E) (filename data)) (content data)) True,
           Begin (StorageGetSignedUrl k),
           End (StorageGetSignedUrl k) True,
           Log Info ''Analyzing image with AI'',
           Begin (GenerateObject (toString_base64 (content data)) (media_type data)),
           End (GenerateObject (toString_base64 (content data)) (media_type data)) True,
           Log Info ''AI analysis completed'',
           Begin (DbInsert (inserted_values uid url k a)),
           End (DbInsert (inserted_values uid url k a)) True,
           Log Info ''Scan saved to database'']\<rparr>"
    using run upload_route_success [OF se fi sz up sg gen ins] by simp
  have row: "imageKey row = k" "imageUrl row = url" "userId row = uid"
    using db_insert_result_fields [OF ins] by (simp_all add: inserted_values_def)
  have form: "upload_key uid (date_now E) (filename data) =
      ''scans/'' @ uid @ ''/'' @ string_of_nat (date_now E) @ ''-'' @ filename data"
    by (simp add: upload_key_def)
  have "take 2 (calls_since w w') =
        [Begin (StorageUpload (upload_key uid (date_now E) (filename data)) (content data)),
         End (StorageUpload (upload_key uid (date_now E) (filename data)) (content data)) True]"
    using w' by (simp add: calls_since_def)
  moreover have "objects w' k = Some (content data)"
    using w' by simp
  moreover have "rows w' = rows w @ [row]"
    using w' by simp
  ultimately show ?thesis
    using row up sg unfolding form by auto
qed

lemma prefixed_upload:
  "fst (upload_route (env_prefixing 1000 (uuid_n 1)) (upload_of ''u1'' leaf) world0) =
     Reply 200
        (JObj [(''scanId'', JStr ''01010101-0101-0101-0101-010101010101''),
               (''imageUrl'', JStr ''https://cdn.example/stored/scans/u1/1000-leaf.png?t=1000''),
               (''analysis'',
                JObj [(''species'', JStr ''Urtica dioica''),
                      (''commonName'', JStr ''Stinging nettle''),
                      (''isSafeToEat'', JBool True),
                      (''isSafeToTouch'', JBool False),
                      (''confidence'', JStr ''high''),
                      (''warnings'', JStr ''Stings bare skin''),
                      (''description'', JStr ''A perennial herb'')])])
   \<and> map imageKey
        (rows (snd (upload_route (env_prefixing 1000 (uuid_n 1)) (upload_of ''u1'' leaf) world0))) =
       [''stored/scans/u1/1000-leaf.png'']
   \<and> objects (snd (upload_route (env_prefixing 1000 (uuid_n 1)) (upload_of ''u1'' leaf) world0)) =
       (\<lambda>key. None)(''stored/scans/u1/1000-leaf.png'' \<mapsto> [77, 97, 110])"
proof -
  let ?a = "\<lparr>species = ''Urtica dioica'', commonName = ''Stinging nettle'',
          isSafeToEat = True, isSafeToTouch = False, confidence = ''high'',
          warnings = ''Stings bare skin'', description = ''A perennial herb''\<rparr>"
  let ?url = "''https://cdn.example/stored/scans/u1/1000-leaf.png?t=1000''"
  let ?k = "''stored/scans/u1/1000-leaf.png''"
  let ?row = "scanned\<lparr>imageUrl := ?url, imageKey := ?k\<rparr>"
  have se: "session (upload_of ''u1'' leaf) = Some ''u1''"
    and fi: "file_part (upload_of ''u1'' leaf) = Some leaf"
    by (simp_all add: upload_of_def)
  have sz: "length (content leaf) \<le> fileSize"
    by (simp add: leaf_def fileSize_def)
  have up: "storage_upload (env_prefixing 1000 (uuid_n 1))
              (upload_key ''u1'' (date_now (env_prefixing 1000 (uuid_n 1))) (filename leaf))
              (content leaf) = Inr ?k"
    by (simp add: env_prefixing_def env_at_def upload_key_def leaf_def string_of_1000)
  have sg: "storage_getSignedUrl (env_prefixing 1000 (uuid_n 1)) ?k = Inr ?url"
    by (simp add: env_prefixing_def env_at_def string_of_1000)
  have gen: "generateObject_result (env_prefixing 1000 (uuid_n 1))
               (toString_base64 (content leaf)) (media_type leaf) = Inr ?a"
    by (simp add: env_prefixing_def env_at_def generateObject_result_def nettle_analysis)
  have ins: "db_insert_result (env_prefixing 1000 (uuid_n 1))
               (inserted_values ''u1'' ?url ?k ?a) (rows world0) = Inr ?row"
    by (simp add: env_prefixing_def env_at_def db_insert_result_def inserted_values_def
        world0_def scanned_def)
  note run = upload_route_success [OF se fi sz up sg gen ins]
  show ?thesis
    unfolding run
    by (simp add: scanned_def uuid_out_examples analysis_json_def world0_def leaf_def)
qed

theorem upload_key_recorded_witness:
  "\<exists>k url row.
      storage_upload (env_prefixing 1000 (uuid_n 1)) ''scans/u1/1000-leaf.png'' [77, 97, 110] = Inr k
    \<and> take 2 (calls_since world0
                (snd (upload_route (env_prefixing 1000 (uuid_n 1)) (upload_of ''u1'' leaf) world0))) =
        [Begin (StorageUpload ''scans/u1/1000-leaf.png'' [77, 97, 110]),
         End (StorageUpload ''scans/u1/1000-leaf.png'' [77, 97, 110]) True]
    \<and> objects (snd (upload_route (env_prefixing 1000 (uuid_n 1)) (upload_of ''u1'' leaf) world0)) k
        = Some [77, 97, 110]
    \<and> rows (snd (upload_route (env_prefixing 1000 (uuid_n 1)) (upload_of ''u1'' leaf) world0)) = [row]
    \<and> userId row = ''u1''
    \<and> imageKey row = k
    \<and> storage_getSignedUrl (env_prefixing 1000 (uuid_n 1)) k = Inr url
    \<and> imageUrl row = url"
proof -
  have run: "upload_route (env_prefixing 1000 (uuid_n 1)) (upload_of ''u1'' leaf) world0 =
      (Reply 200
        (JObj [(''scanId'', JStr ''01010101-0101-0101-0101-010101010101''),
               (''imageUrl'', JStr ''https://cdn.example/stored/scans/u1/1000-leaf.png?t=1000''),
               (''analysis'',
                JObj [(''species'', JStr ''Urtica dioica''),
                      (''commonName'', JStr ''Stinging nettle''),
                      (''isSafeToEat'', JBool True),
                      (''isSafeToTouch'', JBool False),
                      (''confidence'', JStr ''high''),
                      (''warnings'', JStr ''Stings bare skin''),
                      (''description'', JStr ''A perennial herb'')])]),
       snd (upload_route (env_prefixing 1000 (uuid_n 1)) (upload_of ''u1'' leaf) world0))"
    using prefixed_upload by (simp add: prod_eq_iff)
  from upload_key_recorded [OF run, of "''u1''" leaf] show ?thesis
    by (simp add: upload_of_def leaf_def env_prefixing_def env_at_def world0_def string_of_1000)
qed

text \<open>
  Claim C9 as it was stated fails: with a storage client that answers the write with a key
  of its own, here the key it was given behind the prefix \<open>stored/\<close>, the upload replies 200,
  the row records the client's key and not the one of the form \<open>scans/...\<close>, and nothing is
  held under the latter.
\<close>

theorem upload_key_recorded_counterexample:
  "fst (upload_route (env_prefixing 1000 (uuid_n 1)) (upload_of ''u1'' leaf) world0) =
     Reply 200
        (JObj [(''scanId'', JStr ''01010101-0101-0101-0101-010101010101''),
               (''imageUrl'', JStr ''https://cdn.example/stored/scans/u1/1000-leaf.png?t=1000''),
               (''analysis'',
                JObj [(''species'', JStr ''Urtica dioica''),
                      (''commonName'', JStr ''Stinging nettle''),
                      (''isSafeToEat'', JBool True),
                      (''isSafeToTouch'', JBool False),
                      (''confidence'', JStr ''high''),
                      (''warnings'', JStr ''Stings bare skin''),
                      (''description'', JStr ''A perennial herb'')])])
   \<and> map imageKey
        (rows (snd (upload_route (env_prefixing 1000 (uuid_n 1)) (upload_of ''u1'' leaf) world0))) =
       [''stored/scans/u1/1000-leaf.png'']
   \<and> ''stored/scans/u1/1000-leaf.png'' \<noteq> ''scans/u1/1000-leaf.png''
   \<and> objects (snd (upload_route (env_prefixing 1000 (uuid_n 1)) (upload_of ''u1'' leaf) world0))
        ''scans/u1/1000-leaf.png'' = None
   \<and> objects (snd (upload_route (env_prefixing 1000 (uuid_n 1)) (upload_of ''u1'' leaf) world0))
        ''stored/scans/u1/1000-leaf.png'' = Some [77, 97, 110]"
  using prefixed_upload by simp

section \<open>What the client shows after an upload\<close>

text \<open>
  Claim C10. The body of a 200 reply of the upload route carries the analysis under the key
  \<open>analysis\<close>, while \<open>analyzePlant\<close> reads the seven fields from the top level of the body.
  So after any successful upload the result it stores has the defaults in their place:
  'Unknown' twice, false twice, 'low', the empty string and 'No description available',
  whatever the analysis the server returned; only the scan id and the image URL arrive.
\<close>

theorem client_shows_defaults:
  assumes run: "upload_route E req w = (Reply 200 body, w')"
    and sel: "selectedImage st = Some selected" "selected \<noteq> []"
    and resp: "fetch \<lparr>file_uri = selected,
                      file_type = ''image/'' @ last (split_dot selected),
                      file_name = ''scan.'' @ last (split_dot selected)\<rparr> = Inr (200, body)"
  shows "\<exists>sid url a.
      body = JObj [(''scanId'', JStr sid), (''imageUrl'', JStr url), (''analysis'', analysis_json a)]
    \<and> scanResult (analyzePlant True fetch st) =
        Some (JObj [(''scanId'', JStr sid),
                    (''species'', JStr ''Unknown''),
                    (''commonName'', JStr ''Unknown''),
                    (''isSafeToEat'', JBool False),
                    (''isSafeToTouch'', JBool False),
                    (''confidence'', JStr ''low''),
                    (''warnings'', JStr []),
                    (''description'', JStr ''No description available''),
                    (''imageUrl'', JStr (if url = [] then selected else url))])"
proof -
  from upload_route_200 [OF run] obtain uid data k url a row where
    h: "session req = Some uid" "file_part req = Some data"
       "length (content data) \<le> fileSize"
       "storage_upload E (upload_key uid (date_now E) (filename data)) (content data) = Inr k"
       "storage_getSignedUrl E k = Inr url"
       "generateObject_result E (toString_base64 (content data)) (media_type data) = Inr a"
       "db_insert_result E (inserted_values uid url k a) (rows w) = Inr row"
    by blast
  have body: "body = JObj [(''scanId'', JStr (uuid_out (id' row))), (''imageUrl'', JStr url),
                           (''analysis'', analysis_json a)]"
    using run upload_route_success [OF h] by simp
  have res: "scan_result_of body selected =
        JObj [(''scanId'', JStr (uuid_out (id' row))),
              (''species'', JStr ''Unknown''),
              (''commonName'', JStr ''Unknown''),
              (''isSafeToEat'', JBool False),
              (''isSafeToTouch'', JBool False),
              (''confidence'', JStr ''low''),
              (''warnings'', JStr []),
              (''description'', JStr ''No description available''),
              (''imageUrl'', JStr (if url = [] then selected else url))]"
    unfolding body by (simp add: scan_result_of_def js_or_def)
  have "scanResult (analyzePlant True fetch st) = Some (scan_result_of body selected)"
    using sel resp by (simp add: analyzePlant_def Let_def body)
  with body res show ?thesis by auto
qed


theorem client_shows_defaults_witness:
  "scanResult
     (analyzePlant True
        (answer_with (JObj [(''scanId'', JStr ''01010101-0101-0101-0101-010101010101''),
               (''imageUrl'', JStr ''https://cdn.example/scans/u1/1000-leaf.png?t=1000''),
               (''analysis'',
                JObj [(''species'', JStr ''Urtica dioica''),
                      (''commonName'', JStr ''Stinging nettle''),
                      (''isSafeToEat'', JBool True),
                      (''isSafeToTouch'', JBool False),
                      (''confidence'', JStr ''high''),
                      (''warnings'', JStr ''Stings bare skin''),
                      (''description'', JStr ''A perennial herb'')])])) home0) =
     Some (JObj [(''scanId'', JStr ''01010101-0101-0101-0101-010101010101''),
                 (''species'', JStr ''Unknown''),
                 (''commonName'', JStr ''Unknown''),
                 (''isSafeToEat'', JBool False),
                 (''isSafeToTouch'', JBool False),
                 (''confidence'', JStr ''low''),
                 (''warnings'', JStr []),
                 (''description'', JStr ''No description available''),
                 (''imageUrl'', JStr ''https://cdn.example/scans/u1/1000-leaf.png?t=1000'')])"
  using client_shows_defaults [OF example_upload, of home0 "''file:///tmp/photo.png''"
      "answer_with (JObj [(''scanId'', JStr ''01010101-0101-0101-0101-010101010101''),
               (''imageUrl'', JStr ''https://cdn.example/scans/u1/1000-leaf.png?t=1000''),
               (''analysis'',
                JObj [(''species'', JStr ''Urtica dioica''),
                      (''commonName'', JStr ''Stinging nettle''),
                      (''isSafeToEat'', JBool True),
                      (''isSafeToTouch'', JBool False),
                      (''confidence'', JStr ''high''),
                      (''warnings'', JStr ''Stings bare skin''),
                      (''description'', JStr ''A perennial herb'')])])"]
  by (auto simp add: home0_def answer_with_def)

section \<open>The image URL on the read routes\<close>

lemma example_rows: "rows world1 = [scanned]"
  unfolding world1_def
  by (subst upload_route_success [where uid = "''u1''" and data = leaf
        and k = "''scans/u1/1000-leaf.png''"
        and url = "''https://cdn.example/scans/u1/1000-leaf.png?t=1000''"
        and a = "\<lparr>species = ''Urtica dioica'', commonName = ''Stinging nettle'',
          isSafeToEat = True, isSafeToTouch = False, confidence = ''high'',
          warnings = ''Stings bare skin'', description = ''A perennial herb''\<rparr>"
        and row = scanned])
     (simp_all add: upload_of_def leaf_def env_at_def world0_def fileSize_def upload_key_def
        string_of_1000 uuid_out_examples generateObject_result_def nettle_analysis db_insert_result_def
        inserted_values_def scanned_def)

text \<open>
  Claim C2. The sentence fails on the list route. A scan uploaded at time 1000 is stored
  with the URL signed then. A \<open>GET /api/scans\<close> at time 2000 makes no call to the signer and
  returns the row with that stored URL, although signing the stored key at that time gives
  another URL; \<open>GET /api/scans/:id\<close> at the same time does sign the key again and returns
  the new URL.
\<close>

theorem list_route_serves_stored_url:
  "rows world1 = [scanned]
   \<and> imageKey scanned = ''scans/u1/1000-leaf.png''
   \<and> imageUrl scanned = ''https://cdn.example/scans/u1/1000-leaf.png?t=1000''
   \<and> storage_getSignedUrl (env_at 2000 (uuid_n 2)) (imageKey scanned) =
        Inr ''https://cdn.example/scans/u1/1000-leaf.png?t=2000''
   \<and> fst (scans_route (env_at 2000 (uuid_n 2)) (get_of ''u1'' []) world1) =
        Reply 200 (JArr [scan_json scanned])
   \<and> get_prop (scan_json scanned) ''imageUrl'' =
        JStr ''https://cdn.example/scans/u1/1000-leaf.png?t=1000''
   \<and> calls_since world1 (snd (scans_route (env_at 2000 (uuid_n 2)) (get_of ''u1'' []) world1)) =
        [Begin (DbFindMany ''u1''), End (DbFindMany ''u1'') True]
   \<and> fst (scan_by_id_route (env_at 2000 (uuid_n 2))
            (get_of ''u1'' ''01010101-0101-0101-0101-010101010101'') world1) =
        Reply 200 (scan_json
          (scanned\<lparr>imageUrl := ''https://cdn.example/scans/u1/1000-leaf.png?t=2000''\<rparr>))"
proof -
  have se: "session (get_of ''u1'' []) = Some ''u1''"
    "session (get_of ''u1'' ''01010101-0101-0101-0101-010101010101'') = Some ''u1''"
    by (simp_all add: get_of_def)
  have db: "db_fault (env_at 2000 (uuid_n 2)) = None"
    by (simp add: env_at_def)
  have fm: "findMany_result ''u1'' (rows world1) = [scanned]"
    by (simp add: example_rows findMany_result_def scanned_def)
  have sign: "storage_getSignedUrl (env_at 2000 (uuid_n 2)) (imageKey scanned) =
        Inr ''https://cdn.example/scans/u1/1000-leaf.png?t=2000''"
    by (simp add: env_at_def scanned_def string_of_2000)
  have list: "scans_route (env_at 2000 (uuid_n 2)) (get_of ''u1'' []) world1 =
     (Reply 200 (JArr [scan_json scanned]),
      world1\<lparr>trace := trace world1 @
          [Log Info ''Retrieving user scans'', Begin (DbFindMany ''u1''),
           End (DbFindMany ''u1'') True, Log Info ''Scans retrieved successfully'']\<rparr>)"
    using scans_route_ok [OF se(1) db, of world1] by (simp add: fm)
  have par: "uuid_in (params_id (get_of ''u1'' ''01010101-0101-0101-0101-010101010101'')) =
      Some (uuid_n 1)"
    by (simp add: get_of_def uuid_in_examples)
  have found: "find (\<lambda>s. id' s = uuid_n 1) (rows world1) = Some scanned"
    by (simp add: example_rows scanned_def)
  have own: "userId scanned = ''u1''"
    by (simp add: scanned_def)
  have one: "fst (scan_by_id_route (env_at 2000 (uuid_n 2))
                   (get_of ''u1'' ''01010101-0101-0101-0101-010101010101'') world1) =
        Reply 200 (scan_json
          (scanned\<lparr>imageUrl := ''https://cdn.example/scans/u1/1000-leaf.png?t=2000''\<rparr>))"
    using scan_by_id_own [OF se(2) db par found own sign] by simp
  have "imageKey scanned = ''scans/u1/1000-leaf.png''"
    and "imageUrl scanned = ''https://cdn.example/scans/u1/1000-leaf.png?t=1000''"
    and "get_prop (scan_json scanned) ''imageUrl'' =
        JStr ''https://cdn.example/scans/u1/1000-leaf.png?t=1000''"
    by (simp_all add: scanned_def scan_json_def)
  with example_rows sign list one show ?thesis
    by (simp add: calls_since_def)
qed


end
